theory Spec2Isabelle
  imports Complex_Main "HOL-Library.Word"
begin

section \<open>JavaScript strings\<close>

text \<open>
  A JavaScript string is a sequence of 16-bit UTF-16 code units. The regular expressions
  of \<^verbatim>\<open>generateKeyFromName\<close> carry neither the \<^verbatim>\<open>u\<close> nor the \<^verbatim>\<open>i\<close> flag, so they
  match code unit by code unit and case-sensitively.
\<close>

type_synonym code_unit = "16 word"
type_synonym js_string = "code_unit list"

text \<open>An ASCII (Latin-1) literal as a JavaScript string, for writing concrete inputs.\<close>

definition js :: "string \<Rightarrow> js_string" where
  "js s = map (\<lambda>c. word_of_nat (of_char c)) s"

definition hyphen :: code_unit where
  "hyphen = 0x2D"

text \<open>The ranges \<^verbatim>\<open>a-z\<close>, \<^verbatim>\<open>A-Z\<close> and \<^verbatim>\<open>0-9\<close> of a character class.\<close>

definition isLower :: "code_unit \<Rightarrow> bool" where
  "isLower c \<longleftrightarrow> 0x61 \<le> c \<and> c \<le> 0x7A"

definition isUpper :: "code_unit \<Rightarrow> bool" where
  "isUpper c \<longleftrightarrow> 0x41 \<le> c \<and> c \<le> 0x5A"

definition isDigit :: "code_unit \<Rightarrow> bool" where
  "isDigit c \<longleftrightarrow> 0x30 \<le> c \<and> c \<le> 0x39"

text \<open>
  The class escape \<^verbatim>\<open>\s\<close>: the WhiteSpace and LineTerminator code points of ECMAScript
  (TAB, LF, VT, FF, CR, SP, NBSP, U+1680, U+2000 to U+200A, LS, PS, U+202F, U+205F,
  U+3000, BOM).
\<close>

definition isWhiteSpace :: "code_unit \<Rightarrow> bool" where
  "isWhiteSpace c \<longleftrightarrow>
     c = 0x09 \<or> c = 0x0A \<or> c = 0x0B \<or> c = 0x0C \<or> c = 0x0D \<or> c = 0x20 \<or> c = 0xA0 \<or>
     c = 0x1680 \<or> (0x2000 \<le> c \<and> c \<le> 0x200A) \<or> c = 0x2028 \<or> c = 0x2029 \<or>
     c = 0x202F \<or> c = 0x205F \<or> c = 0x3000 \<or> c = 0xFEFF"

text \<open>The negated class \<^verbatim>\<open>[^a-zA-Z\s-]\<close> of the first \<^verbatim>\<open>replace\<close>.\<close>

definition isSpecial :: "code_unit \<Rightarrow> bool" where
  "isSpecial c \<longleftrightarrow> \<not> (isLower c \<or> isUpper c \<or> isWhiteSpace c \<or> c = hyphen)"

text \<open>
  \<^verbatim>\<open>s.replace(/[class]/g, r)\<close>: every code unit of the class is replaced by \<open>r\<close>,
  the others are copied.
\<close>

definition replace_each :: "(code_unit \<Rightarrow> bool) \<Rightarrow> js_string \<Rightarrow> js_string \<Rightarrow> js_string" where
  "replace_each p r s = concat (map (\<lambda>c. if p c then r else [c]) s)"

text \<open>
  \<^verbatim>\<open>s.replace(/[class]+/g, r)\<close>: scanning from the left, a match starts at the first
  code unit of the class and, \<^verbatim>\<open>+\<close> being greedy, takes the whole run; the run is
  replaced by one \<open>r\<close> and the scan goes on behind it.
\<close>

function replace_runs :: "(code_unit \<Rightarrow> bool) \<Rightarrow> js_string \<Rightarrow> js_string \<Rightarrow> js_string" where
  "replace_runs p r [] = []"
| "replace_runs p r (c # cs) =
     (if p c then r @ replace_runs p r (dropWhile p cs) else c # replace_runs p r cs)"
  by pat_completeness auto
termination
  by (relation "measure (\<lambda>(p, r, s). length s)") (auto simp: length_dropWhile_le less_Suc_eq_le)

text \<open>
  \<^verbatim>\<open>String.prototype.toLowerCase\<close> applies the Unicode default case conversion. On a
  string of ASCII code units that is: \<^verbatim>\<open>A\<close> to \<^verbatim>\<open>Z\<close> become \<^verbatim>\<open>a\<close> to \<^verbatim>\<open>z\<close>, everything
  else stays. The conversion of a string with a code unit beyond ASCII (context
  sensitive, and not length preserving) is the parameter \<open>unicodeLower\<close>.
\<close>

definition isASCII :: "code_unit \<Rightarrow> bool" where
  "isASCII c \<longleftrightarrow> c < 0x80"

definition toLowerASCII :: "code_unit \<Rightarrow> code_unit" where
  "toLowerASCII c = (if isUpper c then c + 0x20 else c)"

definition toLowerCase :: "(js_string \<Rightarrow> js_string) \<Rightarrow> js_string \<Rightarrow> js_string" where
  "toLowerCase unicodeLower s =
     (if list_all isASCII s then map toLowerASCII s else unicodeLower s)"

section \<open>The Agent base class\<close>

text \<open>
  \<^verbatim>\<open>
  private generateKeyFromName(name: string): string {
    const key = name
      .replace(/[^a-zA-Z\s-]/g, "")
      .replace(/\s+/g, "-")
      .toLowerCase();
    return key;
  }
  \<close>
\<close>

definition generateKeyFromName :: "(js_string \<Rightarrow> js_string) \<Rightarrow> js_string \<Rightarrow> js_string" where
  "generateKeyFromName unicodeLower name =
     toLowerCase unicodeLower
       (replace_runs isWhiteSpace [hyphen] (replace_each isSpecial [] name))"

text \<open>
  The derivation in the words of the specification: strip the characters that are
  neither alphanumeric nor hyphen (whitespace stays at this step), collapse every
  whitespace run to one hyphen, lowercase.
\<close>

definition isSpecial_spec :: "code_unit \<Rightarrow> bool" where
  "isSpecial_spec c \<longleftrightarrow>
     \<not> (isLower c \<or> isUpper c \<or> isDigit c \<or> isWhiteSpace c \<or> c = hyphen)"

definition identifier_spec :: "(js_string \<Rightarrow> js_string) \<Rightarrow> js_string \<Rightarrow> js_string" where
  "identifier_spec unicodeLower name =
     toLowerCase unicodeLower
       (replace_runs isWhiteSpace [hyphen] (replace_each isSpecial_spec [] name))"

text \<open>
  A logger is an object with the five methods the constructor's default provides. A
  method takes the message and acts on the world \<open>'w\<close> it writes to.
\<close>

record ('m, 'w) Logger =
  info :: "'m \<Rightarrow> 'w \<Rightarrow> 'w"
  warn :: "'m \<Rightarrow> 'w \<Rightarrow> 'w"
  error :: "'m \<Rightarrow> 'w \<Rightarrow> 'w"
  debug :: "'m \<Rightarrow> 'w \<Rightarrow> 'w"
  log_msg :: "'m \<Rightarrow> 'w \<Rightarrow> 'w"

text \<open>
  \<^verbatim>\<open>{ info: () => {}, warn: () => {}, error: () => {}, debug: () => {}, log: () => {} }\<close>
\<close>

definition noopLogger :: "('m, 'w) Logger" where
  "noopLogger =
     \<lparr>info = (\<lambda>m w. w), warn = (\<lambda>m w. w), error = (\<lambda>m w. w), debug = (\<lambda>m w. w),
      log_msg = (\<lambda>m w. w)\<rparr>"

text \<open>
  A console whose world is the list of lines written so far; the global \<^verbatim>\<open>console\<close>
  itself is a parameter of the constructor below.
\<close>

definition lineConsole :: "('m, 'm list) Logger" where
  "lineConsole =
     \<lparr>info = (\<lambda>m w. w @ [m]), warn = (\<lambda>m w. w @ [m]), error = (\<lambda>m w. w @ [m]),
      debug = (\<lambda>m w. w @ [m]), log_msg = (\<lambda>m w. w @ [m])\<rparr>"

text \<open>An optional field (\<^verbatim>\<open>f?: T\<close>) is \<open>None\<close> when it is absent.\<close>

record ('m, 'w) AgentOptions =
  name :: js_string
  description :: js_string
  modelId :: "js_string option"
  region :: "js_string option"
  saveChat :: "bool option"
  logger :: "('m, 'w) Logger option"
  LOG_AGENT_DEBUG_TRACE :: "bool option"

record ('m, 'w) Agent =
  agent_name :: js_string
  agent_id :: js_string
  agent_description :: js_string
  agent_saveChat :: bool
  agent_logger :: "('m, 'w) Logger"
  agent_LOG_AGENT_DEBUG_TRACE :: bool

text \<open>The operator \<^verbatim>\<open>??\<close>: the right operand when the left one is absent.\<close>

definition nullish :: "'a option \<Rightarrow> 'a \<Rightarrow> 'a" where
  "nullish x d = (case x of None \<Rightarrow> d | Some v \<Rightarrow> v)"

text \<open>
  \<^verbatim>\<open>
  constructor(options: AgentOptions) {
    this.name = options.name;
    this.id = this.generateKeyFromName(options.name);
    this.description = options.description;
    this.saveChat = options.saveChat ?? true;
    this.LOG_AGENT_DEBUG_TRACE = options.LOG_AGENT_DEBUG_TRACE ?? false;
    this.logger = options.logger ?? (this.LOG_AGENT_DEBUG_TRACE ? console : { ... });
  }
  \<close>
\<close>

definition Agent_constructor ::
  "(js_string \<Rightarrow> js_string) \<Rightarrow> ('m, 'w) Logger \<Rightarrow> ('m, 'w) AgentOptions \<Rightarrow> ('m, 'w) Agent" where
  "Agent_constructor unicodeLower console options =
     (let trace = nullish (LOG_AGENT_DEBUG_TRACE options) False in
      \<lparr>agent_name = name options,
       agent_id = generateKeyFromName unicodeLower (name options),
       agent_description = description options,
       agent_saveChat = nullish (saveChat options) True,
       agent_logger = nullish (logger options) (if trace then console else noopLogger),
       agent_LOG_AGENT_DEBUG_TRACE = trace\<rparr>)"

text \<open>Options with every optional field absent, for concrete inputs.\<close>

definition plainOptions :: "js_string \<Rightarrow> js_string \<Rightarrow> ('m, 'w) AgentOptions" where
  "plainOptions n d =
     \<lparr>name = n, description = d, modelId = None, region = None, saveChat = None,
      logger = None, LOG_AGENT_DEBUG_TRACE = None\<rparr>"

text \<open>The code units a derived identifier is made of.\<close>

definition isKeyUnit :: "code_unit \<Rightarrow> bool" where
  "isKeyUnit c \<longleftrightarrow> isLower c \<or> c = hyphen"

section \<open>Values and the types of \<^verbatim>\<open>additionalParams\<close>\<close>

text \<open>
  TypeScript types are erased when the program runs: a type stands for the set of
  JavaScript values it admits. The values are those of the additional parameters
  (strings, numbers, booleans, nested mappings) and of JSON; an object is the list of
  its properties, whose keys are strings.
\<close>

datatype js_value =
  VNull
  | VBoolean bool
  | VNumber real
  | VString js_string
  | VArray "js_value list"
  | VObject "(js_string \<times> js_value) list"

text \<open>The types the two declarations use: \<^verbatim>\<open>any\<close>, \<^verbatim>\<open>string\<close> and \<^verbatim>\<open>Record<string, T>\<close>.\<close>

datatype ts_type = TAny | TString | TRecord ts_type

primrec hasType :: "ts_type \<Rightarrow> js_value \<Rightarrow> bool" where
  "hasType TAny v = True"
| "hasType TString v = (case v of VString s \<Rightarrow> True | _ \<Rightarrow> False)"
| "hasType (TRecord t) v =
     (case v of VObject kvs \<Rightarrow> list_all (\<lambda>kv. hasType t (snd kv)) kvs | _ \<Rightarrow> False)"

text \<open>
  \<^verbatim>\<open>additionalParams: Record<string, any>;\<close> in \<^verbatim>\<open>AgentProcessingResult\<close>, and
  \<^verbatim>\<open>additionalParams?: Record<string, string>\<close>, the last parameter of the abstract
  \<^verbatim>\<open>processRequest\<close>. An optional parameter also admits its absence.
\<close>

definition AgentProcessingResult_additionalParams :: ts_type where
  "AgentProcessingResult_additionalParams = TRecord TAny"

definition processRequest_additionalParams :: ts_type where
  "processRequest_additionalParams = TRecord TString"

definition hasOptionalType :: "ts_type \<Rightarrow> js_value option \<Rightarrow> bool" where
  "hasOptionalType t a = (case a of None \<Rightarrow> True | Some v \<Rightarrow> hasType t v)"

section \<open>The response of an agent\<close>

record AgentProcessingResult =
  userInput :: js_string
  agentId :: js_string
  agentName :: js_string
  userId :: js_string
  sessionId :: js_string
  additionalParams :: "(js_string \<times> js_value) list"

text \<open>
  The type \<^verbatim>\<open>AccumulatorTransform | string\<close> of the output of a response. The class
  \<^verbatim>\<open>AccumulatorTransform\<close> is imported from \<^verbatim>\<open>../utils/helpers\<close>; it is the type
  parameter \<open>'t\<close>.
\<close>

datatype 't Output = OutStream 't | OutString js_string

text \<open>
  \<^verbatim>\<open>
  export type AgentResponse = {
    metadata: Omit<AgentProcessingResult, 'response'>;
    output: AccumulatorTransform | string;
    streaming: boolean;
  };
  \<close>
  \<^verbatim>\<open>AgentProcessingResult\<close> has no property \<^verbatim>\<open>response\<close>, so \<^verbatim>\<open>Omit\<close> leaves it as it
  is. The field \<^verbatim>\<open>output\<close> is \<open>response_output\<close> here.
\<close>

record 't AgentResponse =
  metadata :: AgentProcessingResult
  response_output :: "'t Output"
  streaming :: bool

section \<open>The tool specification of the classifier\<close>












section \<open>Character classes\<close>

lemma hyphen_classes:
  "\<not> isLower hyphen" "\<not> isUpper hyphen" "\<not> isDigit hyphen" "\<not> isWhiteSpace hyphen"
  "isASCII hyphen"
  by (simp_all add: hyphen_def isLower_def isUpper_def isDigit_def isWhiteSpace_def isASCII_def)

lemma isLower_classes:
  assumes "isLower c"
  shows "\<not> isUpper c" "\<not> isDigit c" "\<not> isWhiteSpace c" "isASCII c" "c \<noteq> hyphen"
  using assms
  by (auto simp: isLower_def isUpper_def isDigit_def isWhiteSpace_def isASCII_def hyphen_def
      word_le_nat_alt word_less_nat_alt)

lemma isUpper_classes:
  assumes "isUpper c"
  shows "\<not> isLower c" "\<not> isDigit c" "\<not> isWhiteSpace c" "isASCII c" "c \<noteq> hyphen"
  using assms
  by (auto simp: isLower_def isUpper_def isDigit_def isWhiteSpace_def isASCII_def hyphen_def
      word_le_nat_alt word_less_nat_alt)

lemma isDigit_isSpecial: "isDigit c \<Longrightarrow> isSpecial c"
  by (auto simp: isSpecial_def isLower_def isUpper_def isDigit_def isWhiteSpace_def hyphen_def
      word_le_nat_alt)

lemma toLowerASCII_isUpper: "isUpper c \<Longrightarrow> isLower (toLowerASCII c)"
  unfolding isUpper_def isLower_def toLowerASCII_def
  by (auto simp: word_le_nat_alt unat_word_ariths)

lemma toLowerASCII_fixed: "\<not> isUpper c \<Longrightarrow> toLowerASCII c = c"
  by (simp add: toLowerASCII_def)

section \<open>The two replacements\<close>

lemma replace_each_empty: "replace_each p [] s = filter (\<lambda>c. \<not> p c) s"
  by (induction s) (simp_all add: replace_each_def)

lemma replace_each_none: "list_all (\<lambda>c. \<not> p c) s \<Longrightarrow> replace_each p r s = s"
  by (induction s) (simp_all add: replace_each_def)

lemma replace_runs_none: "list_all (\<lambda>c. \<not> p c) s \<Longrightarrow> replace_runs p r s = s"
  by (induction s) simp_all

lemma set_replace_runs: "set (replace_runs p r s) \<subseteq> set r \<union> {c \<in> set s. \<not> p c}"
proof (induction p r s rule: replace_runs.induct)
  case (1 p r)
  show ?case by simp
next
  case (2 p r c cs)
  show ?case
  proof (cases "p c")
    case True
    have "set (dropWhile p cs) \<subseteq> set cs"
      by (auto dest: set_dropWhileD)
    with 2(1) [OF True] True show ?thesis by auto
  next
    case False
    with 2(2) [OF False] show ?thesis by auto
  qed
qed

text \<open>What reaches \<^verbatim>\<open>toLowerCase\<close> holds ASCII letters and hyphens only.\<close>

lemma hyphenated_units:
  assumes "c \<in> set (replace_runs isWhiteSpace [hyphen] (replace_each isSpecial [] n))"
  shows "isLower c \<or> isUpper c \<or> c = hyphen"
proof -
  from assms set_replace_runs [of isWhiteSpace "[hyphen]" "replace_each isSpecial [] n"]
  have "c = hyphen \<or> (c \<in> set (replace_each isSpecial [] n) \<and> \<not> isWhiteSpace c)"
    by auto
  then show ?thesis
    by (auto simp: replace_each_empty isSpecial_def)
qed

lemma hyphenated_ascii:
  "list_all isASCII (replace_runs isWhiteSpace [hyphen] (replace_each isSpecial [] n))"
  unfolding list_all_iff
  using hyphenated_units isLower_classes(4) isUpper_classes(4) hyphen_classes(5) by blast

lemma generateKeyFromName_map:
  "generateKeyFromName unicodeLower n =
     map toLowerASCII (replace_runs isWhiteSpace [hyphen] (replace_each isSpecial [] n))"
  by (simp add: generateKeyFromName_def toLowerCase_def hyphenated_ascii)

lemma generateKeyFromName_units:
  "c \<in> set (generateKeyFromName unicodeLower n) \<Longrightarrow> isKeyUnit c"
  unfolding generateKeyFromName_map isKeyUnit_def
  using hyphenated_units toLowerASCII_isUpper toLowerASCII_fixed isLower_classes(1)
    hyphen_classes(2)
  by (metis (no_types, lifting) imageE list.set_map)

lemma generateKeyFromName_fixed:
  assumes "list_all isKeyUnit s"
  shows "generateKeyFromName unicodeLower s = s"
proof -
  have u: "\<And>c. c \<in> set s \<Longrightarrow> isLower c \<or> c = hyphen"
    using assms by (simp add: list_all_iff isKeyUnit_def)
  have "list_all (\<lambda>c. \<not> isSpecial c) s"
    unfolding list_all_iff using u by (auto simp: isSpecial_def)
  then have 1: "replace_each isSpecial [] s = s"
    by (rule replace_each_none)
  have "list_all (\<lambda>c. \<not> isWhiteSpace c) s"
    unfolding list_all_iff using u isLower_classes(3) hyphen_classes(4) by blast
  then have 2: "replace_runs isWhiteSpace [hyphen] s = s"
    by (rule replace_runs_none)
  have "\<And>c. c \<in> set s \<Longrightarrow> toLowerASCII c = c"
    using u isLower_classes(1) hyphen_classes(2) toLowerASCII_fixed by blast
  then have 3: "map toLowerASCII s = s"
    by (simp add: map_idI)
  show ?thesis
    by (simp add: generateKeyFromName_map 1 2 3)
qed

lemma generateKeyFromName_digits:
  "list_all isDigit n \<Longrightarrow> generateKeyFromName unicodeLower n = []"
  by (induction n)
    (simp_all add: generateKeyFromName_map replace_each_def isDigit_isSpecial)

text \<open>On a name without digits the code and the specification's derivation agree.\<close>

lemma generateKeyFromName_spec_agree:
  assumes "list_all (\<lambda>c. \<not> isDigit c) n"
  shows "generateKeyFromName unicodeLower n = identifier_spec unicodeLower n"
proof -
  from assms have "replace_each isSpecial [] n = replace_each isSpecial_spec [] n"
    by (induction n) (simp_all add: replace_each_def isSpecial_def isSpecial_spec_def)
  then show ?thesis
    by (simp add: generateKeyFromName_def identifier_spec_def)
qed

lemmas key_eval =
  generateKeyFromName_def identifier_spec_def toLowerCase_def toLowerASCII_def
  replace_each_def isSpecial_def isSpecial_spec_def isLower_def isUpper_def isDigit_def
  isWhiteSpace_def isASCII_def hyphen_def js_def

lemmas ctor_eval = Agent_constructor_def plainOptions_def nullish_def Let_def

section \<open>The identifier of an agent\<close>

text \<open>
  C1. The claim: the id of an agent is its name with every character that is neither
  alphanumeric nor a hyphen stripped (whitespace stays), then every whitespace run
  collapsed to one hyphen, then lowercased, so the digits of the name are in the id.
  The class of the first replacement is \<^verbatim>\<open>[^a-zA-Z\s-]\<close>, and a digit is not in
  \<^verbatim>\<open>a-zA-Z\<close>: for the name \<^verbatim>\<open>Tech Agent 2\<close> the constructor computes the id
  \<^verbatim>\<open>tech-agent-\<close>, where the derivation of the claim gives \<^verbatim>\<open>tech-agent-2\<close>.
\<close>

theorem generateKeyFromName_strips_digits:
  "agent_id (Agent_constructor unicodeLower console (plainOptions (js ''Tech Agent 2'') d))
     = js ''tech-agent-'' \<and>
   identifier_spec unicodeLower (js ''Tech Agent 2'') = js ''tech-agent-2''"
  by (simp add: ctor_eval key_eval)

text \<open>
  C2. Identifier derivation is deterministic and idempotent: two agents constructed
  from options with the same name have the same id, whatever else the options, the
  console and the case conversion beyond ASCII are, and deriving from a derived
  identifier returns it unchanged.
\<close>

theorem generateKeyFromName_idempotent:
  "(name options = name options' \<longrightarrow>
      agent_id (Agent_constructor unicodeLower console options) =
      agent_id (Agent_constructor unicodeLower' console' options')) \<and>
   generateKeyFromName unicodeLower (generateKeyFromName unicodeLower n) =
     generateKeyFromName unicodeLower n"
proof -
  have "list_all isKeyUnit (generateKeyFromName unicodeLower n)"
    unfolding list_all_iff using generateKeyFromName_units by blast
  then have "generateKeyFromName unicodeLower (generateKeyFromName unicodeLower n) =
      generateKeyFromName unicodeLower n"
    by (rule generateKeyFromName_fixed)
  moreover have "name options = name options' \<longrightarrow>
      agent_id (Agent_constructor unicodeLower console options) =
      agent_id (Agent_constructor unicodeLower' console' options')"
    by (simp add: Agent_constructor_def Let_def generateKeyFromName_map)
  ultimately show ?thesis by simp
qed

theorem generateKeyFromName_idempotent_witness:
  "agent_id (Agent_constructor id (lineConsole :: (js_string, js_string list) Logger)
       (plainOptions (js ''Tech Support'') (js ''first''))) =
   agent_id (Agent_constructor rev (noopLogger :: (js_string, js_string list) Logger)
       ((plainOptions (js ''Tech Support'') (js ''second'')) \<lparr>saveChat := Some False\<rparr>)) \<and>
   generateKeyFromName id (generateKeyFromName id (js ''Tech Support'')) =
     generateKeyFromName id (js ''Tech Support'') \<and>
   generateKeyFromName id (js ''Tech Support'') = js ''tech-support''"
proof -
  have k: "generateKeyFromName id (js ''Tech Support'') = js ''tech-support''"
    by (simp add: key_eval)
  have n: "name (plainOptions (js ''Tech Support'') (js ''first'')
        :: (js_string, js_string list) AgentOptions) =
      name ((plainOptions (js ''Tech Support'') (js ''second'')) \<lparr>saveChat := Some False\<rparr>
        :: (js_string, js_string list) AgentOptions)"
    by (simp add: plainOptions_def)
  from generateKeyFromName_idempotent
    [of "plainOptions (js ''Tech Support'') (js ''first'')
          :: (js_string, js_string list) AgentOptions"
        "(plainOptions (js ''Tech Support'') (js ''second'')) \<lparr>saveChat := Some False\<rparr>
          :: (js_string, js_string list) AgentOptions"
        id lineConsole rev noopLogger "js ''Tech Support''"] n k
  show ?thesis by blast
qed

text \<open>
  C9. Identifier derivation is not injective, and an id can be empty: a name of digits
  only has the empty id, so two agents named by different digit strings (\<^verbatim>\<open>1\<close> and
  \<^verbatim>\<open>2\<close>, say) have the same, empty id.
\<close>

theorem generateKeyFromName_not_injective:
  assumes "list_all isDigit n" and "list_all isDigit n'"
  shows "agent_id (Agent_constructor unicodeLower console (options \<lparr>name := n\<rparr>)) = [] \<and>
    agent_id (Agent_constructor unicodeLower console (options' \<lparr>name := n'\<rparr>)) = [] \<and>
    \<not> inj (generateKeyFromName unicodeLower)"
proof -
  have e: "generateKeyFromName unicodeLower [0x31] = generateKeyFromName unicodeLower [0x32]"
    by (simp add: generateKeyFromName_digits isDigit_def)
  have "\<not> inj (generateKeyFromName unicodeLower)"
  proof
    assume "inj (generateKeyFromName unicodeLower)"
    then have "[0x31 :: code_unit] = [0x32]"
      using e by (rule injD)
    then show False by simp
  qed
  with assms show ?thesis
    by (simp add: Agent_constructor_def Let_def generateKeyFromName_digits)
qed

theorem generateKeyFromName_not_injective_witness:
  "js ''1'' \<noteq> js ''2'' \<and>
   agent_id (Agent_constructor id (lineConsole :: (js_string, js_string list) Logger)
       (plainOptions (js ''1'') (js ''one''))) = [] \<and>
   agent_id (Agent_constructor id (lineConsole :: (js_string, js_string list) Logger)
       (plainOptions (js ''2'') (js ''two''))) = [] \<and>
   \<not> inj (generateKeyFromName id)"
proof -
  have d: "list_all isDigit (js ''1'')" "list_all isDigit (js ''2'')"
    by (simp_all add: js_def isDigit_def)
  have "js ''1'' \<noteq> js ''2''"
    by (simp add: js_def)
  with generateKeyFromName_not_injective
    [OF d, of id lineConsole "plainOptions (js ''1'') (js ''one'')"
      "plainOptions (js ''2'') (js ''two'')"]
  show ?thesis by (simp add: plainOptions_def)
qed

text \<open>
  C10. The id of every constructed agent holds lowercase ASCII letters and hyphens only:
  no uppercase letter, no digit, no whitespace, nothing beyond ASCII.
\<close>

theorem generateKeyFromName_alphabet:
  "\<forall>c \<in> set (agent_id (Agent_constructor unicodeLower console options)).
     (isLower c \<or> c = hyphen) \<and> \<not> isUpper c \<and> \<not> isDigit c \<and> \<not> isWhiteSpace c \<and> isASCII c"
proof
  fix c
  assume "c \<in> set (agent_id (Agent_constructor unicodeLower console options))"
  then have "c \<in> set (generateKeyFromName unicodeLower (name options))"
    by (simp add: Agent_constructor_def Let_def)
  then have "isLower c \<or> c = hyphen"
    using generateKeyFromName_units isKeyUnit_def by blast
  then show "(isLower c \<or> c = hyphen) \<and> \<not> isUpper c \<and> \<not> isDigit c \<and> \<not> isWhiteSpace c \<and>
      isASCII c"
    using isLower_classes hyphen_classes by blast
qed

theorem generateKeyFromName_alphabet_witness:
  "agent_id (Agent_constructor id (lineConsole :: (js_string, js_string list) Logger)
       (plainOptions (js ''Tech Support 24/7'') (js ''help''))) = js ''tech-support-'' \<and>
   list_all (\<lambda>c. (isLower c \<or> c = hyphen) \<and> \<not> isUpper c \<and> \<not> isDigit c \<and> \<not> isWhiteSpace c \<and>
       isASCII c)
     (agent_id (Agent_constructor id (lineConsole :: (js_string, js_string list) Logger)
       (plainOptions (js ''Tech Support 24/7'') (js ''help''))))"
proof -
  have e: "agent_id (Agent_constructor id (lineConsole :: (js_string, js_string list) Logger)
       (plainOptions (js ''Tech Support 24/7'') (js ''help''))) = js ''tech-support-''"
    by (simp add: ctor_eval key_eval)
  have l: "list_all (\<lambda>c. (isLower c \<or> c = hyphen) \<and> \<not> isUpper c \<and> \<not> isDigit c \<and>
       \<not> isWhiteSpace c \<and> isASCII c)
     (agent_id (Agent_constructor id (lineConsole :: (js_string, js_string list) Logger)
       (plainOptions (js ''Tech Support 24/7'') (js ''help''))))"
    unfolding list_all_iff by (rule generateKeyFromName_alphabet)
  show ?thesis by (rule conjI [OF e l])
qed

section \<open>The defaults of the constructor\<close>

text \<open>
  C3. An agent constructed from options without \<^verbatim>\<open>saveChat\<close> has the flag true; an agent
  constructed with an explicit \<^verbatim>\<open>saveChat\<close> has that value.
\<close>

theorem Agent_saveChat_default:
  "agent_saveChat (Agent_constructor unicodeLower console (options \<lparr>saveChat := None\<rparr>)) = True \<and>
   agent_saveChat (Agent_constructor unicodeLower console (options \<lparr>saveChat := Some b\<rparr>)) = b"
  by (simp add: Agent_constructor_def nullish_def Let_def)

text \<open>
  C4. The claim: without an injected logger the agent's logger is the no-op one,
  whatever the other options. With \<^verbatim>\<open>LOG_AGENT_DEBUG_TRACE\<close> true the constructor takes
  the console instead, and a logging operation then writes.
\<close>

theorem Agent_logger_trace_counterexample:
  "logger ((plainOptions (js ''a'') (js ''b'')) \<lparr>LOG_AGENT_DEBUG_TRACE := Some True\<rparr>
      :: (js_string, js_string list) AgentOptions) = None \<and>
   agent_logger (Agent_constructor id lineConsole
      ((plainOptions (js ''a'') (js ''b'')) \<lparr>LOG_AGENT_DEBUG_TRACE := Some True\<rparr>)) = lineConsole \<and>
   info (agent_logger (Agent_constructor id lineConsole
      ((plainOptions (js ''a'') (js ''b'')) \<lparr>LOG_AGENT_DEBUG_TRACE := Some True\<rparr>)))
     (js ''hi'') [] = [js ''hi''] \<and>
   info (noopLogger :: (js_string, js_string list) Logger) (js ''hi'') [] = []"
  by (simp add: ctor_eval lineConsole_def noopLogger_def)

text \<open>
  C4, amended. Without an injected logger, the agent's logger is the no-op one when
  \<^verbatim>\<open>LOG_AGENT_DEBUG_TRACE\<close> is absent or false, and the console when it is true; every
  operation of the no-op logger leaves the world as it is. An injected logger is kept.
\<close>

theorem Agent_logger_default:
  "(logger options = None \<longrightarrow>
      agent_logger (Agent_constructor unicodeLower console options) =
        (if LOG_AGENT_DEBUG_TRACE options = Some True then console else noopLogger)) \<and>
   (logger options = Some l \<longrightarrow>
      agent_logger (Agent_constructor unicodeLower console options) = l) \<and>
   info noopLogger m w = w \<and> warn noopLogger m w = w \<and> error noopLogger m w = w \<and>
   debug noopLogger m w = w \<and> log_msg noopLogger m w = w"
  by (auto simp: Agent_constructor_def nullish_def Let_def noopLogger_def split: option.splits)

theorem Agent_logger_default_witness:
  "logger (plainOptions (js ''a'') (js ''b'') :: (js_string, js_string list) AgentOptions) = None \<and>
   agent_logger (Agent_constructor id lineConsole (plainOptions (js ''a'') (js ''b''))) =
     (noopLogger :: (js_string, js_string list) Logger) \<and>
   info (agent_logger (Agent_constructor id lineConsole (plainOptions (js ''a'') (js ''b''))))
     (js ''hi'') [js ''line''] = [js ''line''] \<and>
   agent_logger (Agent_constructor id noopLogger
     ((plainOptions (js ''a'') (js ''b'')) \<lparr>logger := Some lineConsole\<rparr>)) =
     (lineConsole :: (js_string, js_string list) Logger)"
proof -
  have a: "logger (plainOptions (js ''a'') (js ''b'')
      :: (js_string, js_string list) AgentOptions) = None"
    "LOG_AGENT_DEBUG_TRACE (plainOptions (js ''a'') (js ''b'')
      :: (js_string, js_string list) AgentOptions) \<noteq> Some True"
    by (simp_all add: plainOptions_def)
  have b: "logger ((plainOptions (js ''a'') (js ''b'')) \<lparr>logger := Some lineConsole\<rparr>
      :: (js_string, js_string list) AgentOptions) = Some lineConsole"
    by simp
  from Agent_logger_default
    [of "plainOptions (js ''a'') (js ''b'') :: (js_string, js_string list) AgentOptions"
      id lineConsole lineConsole "js ''hi''" "[js ''line'']"]
    Agent_logger_default
    [of "(plainOptions (js ''a'') (js ''b'')) \<lparr>logger := Some lineConsole\<rparr>
        :: (js_string, js_string list) AgentOptions" id noopLogger
      lineConsole "js ''hi''" "[js ''line'']"]
  show ?thesis using a b by simp
qed

section \<open>The additional parameters\<close>

text \<open>
  C8. The claim: \<^verbatim>\<open>additionalParams\<close> maps string keys to values of arbitrary type, both
  in \<^verbatim>\<open>AgentProcessingResult\<close> and as the optional argument of \<^verbatim>\<open>processRequest\<close>. The
  argument of \<^verbatim>\<open>processRequest\<close> is declared \<^verbatim>\<open>Record<string, string>\<close>: a mapping with
  a number in it has the type of the result's field and not the type of the argument.
\<close>

theorem processRequest_additionalParams_counterexample:
  "hasType AgentProcessingResult_additionalParams (VObject [(js ''retries'', VNumber 3)]) \<and>
   \<not> hasOptionalType processRequest_additionalParams
       (Some (VObject [(js ''retries'', VNumber 3)]))"
  by (simp add: AgentProcessingResult_additionalParams_def processRequest_additionalParams_def
      hasOptionalType_def)

text \<open>
  C8, amended. The \<^verbatim>\<open>additionalParams\<close> of \<^verbatim>\<open>AgentProcessingResult\<close> maps string keys to
  values of arbitrary type; the optional \<^verbatim>\<open>additionalParams\<close> argument of
  \<^verbatim>\<open>processRequest\<close> maps string keys to strings only, and may be absent.
\<close>

theorem additionalParams_types:
  "hasType AgentProcessingResult_additionalParams (VObject m) \<and>
   hasOptionalType processRequest_additionalParams (Some (VObject m)) =
     list_all (\<lambda>kv. \<exists>s. snd kv = VString s) m \<and>
   hasOptionalType processRequest_additionalParams None"
proof -
  have "hasType TString v = (\<exists>s. v = VString s)" for v
    by (cases v) simp_all
  then show ?thesis
    by (simp add: AgentProcessingResult_additionalParams_def
        processRequest_additionalParams_def hasOptionalType_def list_all_iff)
qed

section \<open>The streaming flag\<close>



section \<open>The schema of a classification\<close>




end
